theory Spec2Isabelle
  imports Main
begin

section \<open>Python strings and POSIX path arithmetic\<close>

text \<open>
  The resolver manipulates targets and document names as strings. The functions of this
  section are library functions of Python (\<^verbatim>\<open>str.lower\<close>, \<^verbatim>\<open>str.rsplit\<close>,
  \<^verbatim>\<open>posixpath.join\<close>, \<^verbatim>\<open>posixpath.normpath\<close>, \<^verbatim>\<open>posixpath.splitext\<close>) and of Sphinx
  (\<^verbatim>\<open>sphinx.util.docname_join\<close>); they are written after the library sources so that the
  resolver can be evaluated on concrete inputs.
\<close>

definition lower_char :: "char \<Rightarrow> char" where
  "lower_char c =
     (let n = (of_char c :: nat)
      in if 65 \<le> n \<and> n \<le> 90 then char_of (n + 32) else c)"

text \<open>\<^verbatim>\<open>str.lower()\<close> on ASCII text; bytes outside \<open>A\<close>..\<open>Z\<close> are unchanged.\<close>

definition lower :: "string \<Rightarrow> string" where
  "lower s = map lower_char s"

text \<open>\<^verbatim>\<open>sep.join(parts)\<close>.\<close>

fun str_join :: "string \<Rightarrow> string list \<Rightarrow> string" where
  "str_join sep [] = []"
| "str_join sep [x] = x"
| "str_join sep (x # y # ys) = x @ sep @ str_join sep (y # ys)"

text \<open>\<^verbatim>\<open>s.split(c)\<close> for a one-character separator: never returns the empty list.\<close>

fun split_char :: "char \<Rightarrow> string \<Rightarrow> string list" where
  "split_char c [] = [[]]"
| "split_char c (x # xs) =
     (if x = c then [] # split_char c xs
      else (case split_char c xs of
              [] \<Rightarrow> [[x]]
            | w # ws \<Rightarrow> (x # w) # ws))"

text \<open>
  \<^verbatim>\<open>s.rsplit(c, 1)\<close> when \<open>c\<close> occurs in \<open>s\<close>: the text before the last occurrence and the
  text after it. (Without an occurrence Python returns the one-element list \<open>[s]\<close>; the
  resolver only calls it behind the test \<^verbatim>\<open>"#" in target\<close>.)
\<close>

definition rsplit1 :: "char \<Rightarrow> string \<Rightarrow> string \<times> string" where
  "rsplit1 c s =
     (let after = rev (takeWhile (\<lambda>x. x \<noteq> c) (rev s))
      in (take (length s - length after - 1) s, after))"

definition startswith :: "string \<Rightarrow> string \<Rightarrow> bool" where
  "startswith s p = (take (length p) s = p)"

definition endswith :: "string \<Rightarrow> string \<Rightarrow> bool" where
  "endswith s p = (drop (length s - length p) s = p \<and> length p \<le> length s)"

text \<open>One step of the loop of \<^verbatim>\<open>posixpath.join(a, *p)\<close>.\<close>

definition join_step :: "string \<Rightarrow> string \<Rightarrow> string" where
  "join_step path b =
     (if startswith b ''/'' then b
      else if path = [] \<or> endswith path ''/'' then path @ b
      else path @ ''/'' @ b)"

definition path_join :: "string \<Rightarrow> string list \<Rightarrow> string" where
  "path_join a p = foldl join_step a p"

text \<open>
  The loop of \<^verbatim>\<open>posixpath.normpath\<close> over the components, with the accumulated
  \<^verbatim>\<open>new_comps\<close>; \<open>initial_slashes\<close> is the number of leading slashes kept (0, 1 or 2).
\<close>

fun normpath_loop :: "nat \<Rightarrow> string list \<Rightarrow> string list \<Rightarrow> string list" where
  "normpath_loop initial_slashes new_comps [] = new_comps"
| "normpath_loop initial_slashes new_comps (cmp # comps) =
     (if cmp = [] \<or> cmp = ''.'' then normpath_loop initial_slashes new_comps comps
      else if cmp \<noteq> ''..'' \<or> (initial_slashes = 0 \<and> new_comps = [])
                \<or> (new_comps \<noteq> [] \<and> last new_comps = ''..'')
        then normpath_loop initial_slashes (new_comps @ [cmp]) comps
      else if new_comps \<noteq> [] then normpath_loop initial_slashes (butlast new_comps) comps
      else normpath_loop initial_slashes new_comps comps)"

definition normpath :: "string \<Rightarrow> string" where
  "normpath path =
     (if path = [] then ''.''
      else
        let initial_slashes =
              (if startswith path ''/'' then
                 (if startswith path ''//'' \<and> \<not> startswith path ''///'' then 2 else 1)
               else 0);
            comps = normpath_loop initial_slashes [] (split_char CHR ''/'' path);
            joined = replicate initial_slashes CHR ''/'' @ str_join ''/'' comps
        in if joined = [] then ''.'' else joined)"


text \<open>
  \<^verbatim>\<open>posixpath.splitext\<close>: the extension starts at the last dot of the last path component,
  unless that component consists of leading dots only up to there.
\<close>

definition splitext :: "string \<Rightarrow> string \<times> string" where
  "splitext p =
     (let base = rev (takeWhile (\<lambda>x. x \<noteq> CHR ''/'') (rev p));
          ext = rev (takeWhile (\<lambda>x. x \<noteq> CHR ''.'') (rev base));
          stem = take (length base - length ext - 1) base
      in if CHR ''.'' \<in> set base \<and> (\<exists>x \<in> set stem. x \<noteq> CHR ''.'')
         then (take (length p - length ext - 1) p, CHR ''.'' # ext)
         else (p, []))"

text \<open>\<^verbatim>\<open>sphinx.util.docname_join\<close>.\<close>

definition docname_join :: "string \<Rightarrow> string \<Rightarrow> string" where
  "docname_join basedocname docname =
     drop 1 (normpath (path_join (''/'' @ basedocname) [''..'', docname]))"

section \<open>Document nodes\<close>

text \<open>
  A docutils node is a text leaf or an element with a tag name, its raw source, an
  attribute dictionary and children. A \<^verbatim>\<open>pending_xref\<close> element is kept apart, with the
  attributes the resolver reads and writes as typed fields: \<^verbatim>\<open>reftype\<close>, \<^verbatim>\<open>reftarget\<close>,
  the optional \<^verbatim>\<open>refdoc\<close>, \<^verbatim>\<open>refdomain\<close>, \<^verbatim>\<open>refexplicit\<close>, \<^verbatim>\<open>refwarn\<close>, and the four
  basic attribute lists that \<^verbatim>\<open>replace_self\<close> carries over to the replacement. A
  placeholder is a \<^verbatim>\<open>pending_xref\<close> whose \<^verbatim>\<open>reftype\<close> is \<^verbatim>\<open>"myst"\<close>.
\<close>

datatype attr = AStr string | ABool bool | AList "string list"

record xref =
  reftype :: string
  reftarget :: string
  refdoc :: "string option"
  refdomain :: "string option"
  refexplicit :: bool
  refwarn :: bool
  xids :: "string list"
  xclasses :: "string list"
  xnames :: "string list"
  xdupnames :: "string list"

datatype node =
    Text string
  | Element string string "(string \<times> attr) list" "node list"
  | PendingXref xref "node list"

text \<open>\<^verbatim>\<open>node.children\<close>; a text leaf has the empty tuple.\<close>

fun children :: "node \<Rightarrow> node list" where
  "children (Text s) = []"
| "children (Element tag raw attrs kids) = kids"
| "children (PendingXref x kids) = kids"

text \<open>\<^verbatim>\<open>node[0]\<close>, which raises \<^verbatim>\<open>IndexError\<close> on an element without children.\<close>

definition child0 :: "node \<Rightarrow> node option" where
  "child0 n = (case children n of [] \<Rightarrow> None | c # _ \<Rightarrow> Some c)"

text \<open>\<^verbatim>\<open>isinstance(n, nodes.Element)\<close>.\<close>

fun is_element :: "node \<Rightarrow> bool" where
  "is_element (Text s) = False"
| "is_element (Element tag raw attrs kids) = True"
| "is_element (PendingXref x kids) = True"


text \<open>Assignment to a key of an attribute dictionary.\<close>

fun dict_set :: "string \<Rightarrow> attr \<Rightarrow> (string \<times> attr) list \<Rightarrow> (string \<times> attr) list" where
  "dict_set k v [] = [(k, v)]"
| "dict_set k v ((k', v') # ps) = (if k = k' then (k, v) # ps else (k', v') # dict_set k v ps)"

text \<open>The list attributes every docutils element starts with.\<close>

definition default_attributes :: "(string \<times> attr) list" where
  "default_attributes =
     [(''ids'', AList []), (''classes'', AList []), (''names'', AList []),
      (''dupnames'', AList []), (''backrefs'', AList [])]"

text \<open>
  The docutils classes that derive from \<^verbatim>\<open>TextElement\<close> join the text of their children
  without a separator; every other element joins with a blank line.
\<close>

definition text_elements :: "string list" where
  "text_elements =
     [''inline'', ''reference'', ''emphasis'', ''strong'', ''literal'', ''title'', ''subtitle'',
      ''rubric'', ''paragraph'', ''term'', ''classifier'', ''literal_block'', ''doctest_block'',
      ''math_block'', ''line'', ''attribution'', ''caption'', ''label'', ''comment'',
      ''substitution_definition'', ''target'', ''raw'', ''footnote_reference'',
      ''citation_reference'', ''substitution_reference'', ''title_reference'', ''abbreviation'',
      ''acronym'', ''superscript'', ''subscript'', ''math'', ''problematic'', ''generated'',
      ''field_name'', ''option_string'', ''option_argument'', ''address'', ''author'',
      ''organization'', ''contact'', ''version'', ''revision'', ''status'', ''date'',
      ''copyright'']"

definition child_text_separator :: "string \<Rightarrow> string" where
  "child_text_separator tag = (if tag \<in> set text_elements then [] else [CHR 0x0A, CHR 0x0A])"

text \<open>\<^verbatim>\<open>node.astext()\<close>; an image answers with its \<^verbatim>\<open>alt\<close> text.\<close>

fun astext :: "node \<Rightarrow> string" where
  "astext (Text s) = s"
| "astext (Element tag raw attrs kids) =
     (if tag = ''image'' then (case map_of attrs ''alt'' of Some (AStr a) \<Rightarrow> a | _ \<Rightarrow> [])
      else str_join (child_text_separator tag) (map astext kids))"
| "astext (PendingXref x kids) = str_join [CHR 0x0A, CHR 0x0A] (map astext kids)"

text \<open>
  \<^verbatim>\<open>sphinx.util.nodes.clean_astext\<close>: the text of a copy in which images have an empty
  \<^verbatim>\<open>alt\<close> and raw nodes are removed.
\<close>

fun clean_astext :: "node \<Rightarrow> string" where
  "clean_astext (Text s) = s"
| "clean_astext (Element tag raw attrs kids) =
     (if tag = ''image'' then []
      else str_join (child_text_separator tag)
             (map clean_astext
                (filter (\<lambda>k. case k of Element t _ _ _ \<Rightarrow> t \<noteq> ''raw'' | _ \<Rightarrow> True) kids)))"
| "clean_astext (PendingXref x kids) =
     str_join [CHR 0x0A, CHR 0x0A]
       (map clean_astext
          (filter (\<lambda>k. case k of Element t _ _ _ \<Rightarrow> t \<noteq> ''raw'' | _ \<Rightarrow> True) kids))"

text \<open>
  \<^verbatim>\<open>nodes.inline(rawsource, text, classes=...)\<close>: a non-empty \<open>text\<close> becomes the first
  child.
\<close>

definition inline :: "string \<Rightarrow> string \<Rightarrow> string list \<Rightarrow> node" where
  "inline rawsource text classes =
     Element ''inline'' rawsource (dict_set ''classes'' (AList classes) default_attributes)
       (if text = [] then [] else [Text text])"

text \<open>\<^verbatim>\<open>element.extend(nodes)\<close>: appends the given nodes to the children.\<close>

fun node_extend :: "node \<Rightarrow> node list \<Rightarrow> node" where
  "node_extend (Element tag raw attrs kids) ns = Element tag raw attrs (kids @ ns)"
| "node_extend (PendingXref x kids) ns = PendingXref x (kids @ ns)"
| "node_extend (Text s) ns = Text s"

section \<open>Exceptions, the environment and the logger\<close>

datatype exn = NoUri | NotImplementedError | IndexError | KeyError | AssertionError
  | OtherError string

text \<open>
  A call of \<^verbatim>\<open>logger.warning(msg, type=..., subtype=..., once=...)\<close>. Every function below
  returns the calls it made, also when it raises.
\<close>

record log_call =
  message :: string
  wtype :: string
  subtype :: string
  once :: bool

text \<open>
  A domain as the resolver uses it. \<open>resolve_any_xref\<close> and \<open>resolve_xref\<close> receive the
  referring document, (the role,) the target, the placeholder and the content node; they
  may raise. \<open>module\<close> is the \<^verbatim>\<open>__module__\<close> of the domain's class.
\<close>

record domain =
  name :: string
  module :: string
  roles :: "string list"
  resolve_any_xref :: "string \<Rightarrow> string \<Rightarrow> node \<Rightarrow> node \<Rightarrow> exn + (string \<times> node) list"
  resolve_xref :: "string \<Rightarrow> string \<Rightarrow> string \<Rightarrow> node \<Rightarrow> node \<Rightarrow> exn + node option"

text \<open>
  The build environment, the configuration, the standard domain's registries, the builder
  and the application's \<^verbatim>\<open>missing-reference\<close> listeners, all read-only during the pass.
  Dictionaries whose iteration order the resolver depends on (\<open>object_types\<close>, \<open>domains\<close>,
  \<open>handlers\<close>) are lists in that order.
\<close>

record env =
  myst_heading_anchors :: "nat option"
  myst_ref_domains :: "string list option"
  source_suffix :: "string list"
  nitpicky :: bool
  nitpick_ignore :: "(string \<times> string) list"
  env_docname :: string
  all_docs :: "string list"
  titles :: "string \<rightharpoonup> node"
  doc2path :: "string \<Rightarrow> string"
  labels :: "string \<rightharpoonup> string \<times> string \<times> string"
  anonlabels :: "string \<rightharpoonup> string \<times> string"
  object_types :: "string list"
  objects :: "string \<times> string \<rightharpoonup> string \<times> string"
  role_for_objtype :: "string \<Rightarrow> string option"
  get_relative_uri :: "string \<Rightarrow> string \<Rightarrow> exn + string"
  domains :: "domain list"
  handlers :: "(node \<Rightarrow> node \<Rightarrow> exn + node option) list"

text \<open>
  \<^verbatim>\<open>sphinx.util.nodes.make_refnode\<close>: a \<^verbatim>\<open>reference\<close> element pointing at \<open>targetid\<close> in
  \<open>todocname\<close>, with \<open>child\<close> as its only child. The builder's \<^verbatim>\<open>get_relative_uri\<close> may
  raise \<^verbatim>\<open>NoUri\<close>.
\<close>

definition make_refnode :: "env \<Rightarrow> string \<Rightarrow> string \<Rightarrow> string \<Rightarrow> node \<Rightarrow> exn + node" where
  "make_refnode e fromdocname todocname targetid child =
     (let attrs = dict_set ''internal'' (ABool True) default_attributes
      in if fromdocname = todocname \<and> targetid \<noteq> [] then
           Inr (Element ''reference'' [] (dict_set ''refid'' (AStr targetid) attrs) [child])
         else
           (case get_relative_uri e fromdocname todocname of
              Inl err \<Rightarrow> Inl err
            | Inr uri \<Rightarrow>
                Inr (Element ''reference'' []
                      (dict_set ''refuri''
                         (AStr (if targetid \<noteq> [] then uri @ ''#'' @ targetid else uri)) attrs)
                      [child])))"

section \<open>The resolution strategies\<close>

text \<open>
  \<^verbatim>\<open>_resolve_ref_nested(node, fromdocname, target=None)\<close>. The placeholder is given by its
  attributes \<open>x\<close> and its children \<open>kids\<close>. An explicit placeholder is looked up among the
  anonymous labels and keeps the children of its first child as the label; an implicit
  one is looked up among the named labels and shows the section name stored there.
\<close>

definition resolve_ref_nested ::
  "env \<Rightarrow> xref \<Rightarrow> node list \<Rightarrow> string \<Rightarrow> string option \<Rightarrow> exn + node option" where
  "resolve_ref_nested e x kids fromdocname target =
     (let target' = (case target of
                       None \<Rightarrow> lower (reftarget x)
                     | Some t \<Rightarrow> if t = [] then lower (reftarget x) else t)
      in if refexplicit x then
           (let (docname, labelid) =
                  (case anonlabels e target' of None \<Rightarrow> ([], []) | Some found \<Rightarrow> found);
                sectname = astext (PendingXref x kids)
            in (case kids of
                  [] \<Rightarrow> Inl IndexError
                | c # _ \<Rightarrow>
                    let innernode = node_extend (inline sectname [] []) (children c)
                    in if docname = [] then Inr None
                       else (case make_refnode e fromdocname docname labelid innernode of
                               Inl err \<Rightarrow> Inl err
                             | Inr n \<Rightarrow> Inr (Some n))))
         else
           (let (docname, labelid, sectname) =
                  (case labels e target' of None \<Rightarrow> ([], [], []) | Some found \<Rightarrow> found);
                innernode = inline sectname sectname []
            in if docname = [] then Inr None
               else (case make_refnode e fromdocname docname labelid innernode of
                       Inl err \<Rightarrow> Inl err
                     | Inr n \<Rightarrow> Inr (Some n))))"

text \<open>
  \<^verbatim>\<open>_resolve_doc_nested(node, fromdocname)\<close>: the target joined against the referring
  document, with one attempt to strip a source suffix.
\<close>

definition doc_candidate :: "env \<Rightarrow> string \<Rightarrow> string" where
  "doc_candidate e docname0 =
     (if docname0 \<notin> set (all_docs e) \<and> snd (splitext docname0) \<in> set (source_suffix e)
      then fst (splitext docname0) else docname0)"

definition resolve_doc_nested ::
  "env \<Rightarrow> xref \<Rightarrow> node list \<Rightarrow> string \<Rightarrow> exn + node option" where
  "resolve_doc_nested e x kids fromdocname =
     (let refdoc' = (case refdoc x of Some d \<Rightarrow> d | None \<Rightarrow> fromdocname);
          docname = doc_candidate e (docname_join refdoc' (reftarget x))
      in if docname \<notin> set (all_docs e) then Inr None
         else if refexplicit x then
           (case kids of
              [] \<Rightarrow> Inl IndexError
            | c # _ \<Rightarrow>
                let caption = astext (PendingXref x kids);
                    innernode = node_extend (inline caption [] [''doc'']) (children c)
                in (case make_refnode e fromdocname docname [] innernode of
                      Inl err \<Rightarrow> Inl err
                    | Inr n \<Rightarrow> Inr (Some n)))
         else
           (case titles e docname of
              None \<Rightarrow> Inl KeyError
            | Some title \<Rightarrow>
                let caption = clean_astext title;
                    innernode = inline caption caption [''doc'']
                in (case make_refnode e fromdocname docname [] innernode of
                      Inl err \<Rightarrow> Inl err
                    | Inr n \<Rightarrow> Inr (Some n))))"

text \<open>
  \<^verbatim>\<open>_resolve_anchor(node, fromdocname)\<close>. \<open>anchor_key\<close> is the key it hands to
  \<open>resolve_ref_nested\<close>: the normalised document path, \<^verbatim>\<open>#\<close>, and the anchor.
\<close>

definition anchor_key :: "env \<Rightarrow> xref \<Rightarrow> string \<Rightarrow> string" where
  "anchor_key e x fromdocname =
     (let (rel_path0, anchor) = rsplit1 CHR ''#'' (reftarget x);
          rel_path = normpath rel_path0;
          refdoc' = (case refdoc x of Some d \<Rightarrow> d | None \<Rightarrow> fromdocname);
          doc_path = (if rel_path = ''.'' then doc2path e refdoc'
                      else normpath (path_join refdoc' [''..'', rel_path]))
      in doc_path @ ''#'' @ anchor)"

definition resolve_anchor ::
  "env \<Rightarrow> xref \<Rightarrow> node list \<Rightarrow> string \<Rightarrow> exn + node option" where
  "resolve_anchor e x kids fromdocname =
     (if myst_heading_anchors e = None then Inr None
      else if CHR ''#'' \<notin> set (reftarget x) then Inr None
      else resolve_ref_nested e x kids fromdocname (Some (anchor_key e x fromdocname)))"

section \<open>Collecting the candidates\<close>

text \<open>
  The first part of \<^verbatim>\<open>resolve_myst_ref\<close>: the anchor, and only when it gives nothing the
  named label and the document.
\<close>

definition anchor_ref_doc ::
  "env \<Rightarrow> string \<Rightarrow> xref \<Rightarrow> node list \<Rightarrow> exn + (string \<times> node) list" where
  "anchor_ref_doc e refdoc' x kids =
     (case resolve_anchor e x kids refdoc' of
        Inl err \<Rightarrow> Inl err
      | Inr (Some res_anchor) \<Rightarrow> Inr [(''std:doc'', res_anchor)]
      | Inr None \<Rightarrow>
          (case resolve_ref_nested e x kids refdoc' None of
             Inl err \<Rightarrow> Inl err
           | Inr res_ref \<Rightarrow>
               (case resolve_doc_nested e x kids refdoc' of
                  Inl err \<Rightarrow> Inl err
                | Inr res_doc \<Rightarrow>
                    Inr ((case res_ref of Some r \<Rightarrow> [(''std:ref'', r)] | None \<Rightarrow> []) @
                         (case res_doc of Some r \<Rightarrow> [(''std:doc'', r)] | None \<Rightarrow> [])))))"

text \<open>The key of the standard domain's object index for one object type.\<close>

definition std_key :: "string \<Rightarrow> string \<Rightarrow> string \<times> string" where
  "std_key objtype target =
     (if objtype = ''term'' then (objtype, lower target) else (objtype, target))"

text \<open>The loop over \<^verbatim>\<open>stddomain.object_types\<close>, appending to \<open>results\<close>.\<close>

fun std_objects ::
  "env \<Rightarrow> string \<Rightarrow> string \<Rightarrow> node \<Rightarrow> string list \<Rightarrow> (string \<times> node) list
     \<Rightarrow> exn + (string \<times> node) list" where
  "std_objects e refdoc' target contnode [] results = Inr results"
| "std_objects e refdoc' target contnode (objtype # rest) results =
     (case objects e (std_key objtype target) of
        None \<Rightarrow> std_objects e refdoc' target contnode rest results
      | Some (docname, labelid) \<Rightarrow>
          let domain_role =
                ''std:'' @ (case role_for_objtype e objtype of Some r \<Rightarrow> r | None \<Rightarrow> ''None'')
          in (case make_refnode e refdoc' docname labelid contnode of
                Inl err \<Rightarrow> Inl err
              | Inr ref_node \<Rightarrow>
                  std_objects e refdoc' target contnode rest (results @ [(domain_role, ref_node)])))"

text \<open>
  The loop over \<^verbatim>\<open>domain.roles\<close> for a domain without \<^verbatim>\<open>resolve_any_xref\<close>. A result
  counts when it is a node whose first child is an element.
\<close>

fun roles_loop ::
  "domain \<Rightarrow> string \<Rightarrow> string \<Rightarrow> node \<Rightarrow> node \<Rightarrow> string list \<Rightarrow> (string \<times> node) list
     \<Rightarrow> exn + (string \<times> node) list" where
  "roles_loop d refdoc' target nd contnode [] results = Inr results"
| "roles_loop d refdoc' target nd contnode (role # rest) results =
     (case resolve_xref d refdoc' role target nd contnode of
        Inl err \<Rightarrow> Inl err
      | Inr None \<Rightarrow> roles_loop d refdoc' target nd contnode rest results
      | Inr (Some res) \<Rightarrow>
          (if (case children res of [] \<Rightarrow> False | c # _ \<Rightarrow> is_element c)
           then roles_loop d refdoc' target nd contnode rest
                  (results @ [(name d @ '':'' @ role, res)])
           else roles_loop d refdoc' target nd contnode rest results))"

text \<open>The warning about a domain that raises \<^verbatim>\<open>NotImplementedError\<close>, logged with \<^verbatim>\<open>once=True\<close>.\<close>

definition domain_warning :: "domain \<Rightarrow> log_call" where
  "domain_warning d =
     \<lparr>message = ''Domain '' @ [CHR 0x27] @ module d @ ''::'' @ name d @ [CHR 0x27] @
                 '' has not implemented a `resolve_any_xref` method [myst.domains]'',
      wtype = ''myst'', subtype = ''domains'', once = True\<rparr>"

text \<open>
  The loop over \<^verbatim>\<open>self.env.domains.values()\<close>: the standard domain and the domains outside
  the allow-list are passed over.
\<close>

fun other_domains ::
  "env \<Rightarrow> string \<Rightarrow> string \<Rightarrow> node \<Rightarrow> node \<Rightarrow> domain list \<Rightarrow> (string \<times> node) list
     \<Rightarrow> (exn + (string \<times> node) list) \<times> log_call list" where
  "other_domains e refdoc' target nd contnode [] results = (Inr results, [])"
| "other_domains e refdoc' target nd contnode (d # ds) results =
     (if name d = ''std'' then other_domains e refdoc' target nd contnode ds results
      else if (case myst_ref_domains e of None \<Rightarrow> False | Some allowed \<Rightarrow> name d \<notin> set allowed)
        then other_domains e refdoc' target nd contnode ds results
      else
        (case resolve_any_xref d refdoc' target nd contnode of
           Inr found \<Rightarrow> other_domains e refdoc' target nd contnode ds (results @ found)
         | Inl NotImplementedError \<Rightarrow>
             let calls = (if \<not> startswith (module d) ''sphinx.'' then [domain_warning d] else [])
             in (case roles_loop d refdoc' target nd contnode (roles d) results of
                   Inl err \<Rightarrow> (Inl err, calls)
                 | Inr results' \<Rightarrow>
                     (case other_domains e refdoc' target nd contnode ds results' of
                        (r, calls') \<Rightarrow> (r, calls @ calls')))
         | Inl err \<Rightarrow> (Inl err, [])))"


text \<open>
  Lines 100 to 167 of \<^verbatim>\<open>resolve_myst_ref\<close>: the candidates in the order they are
  appended, and the logger calls made on the way. \<open>std_allowed\<close> is the test
  \<^verbatim>\<open>ref_domains is None or "std" in ref_domains\<close>.
\<close>

definition std_allowed :: "env \<Rightarrow> bool" where
  "std_allowed e =
     (case myst_ref_domains e of None \<Rightarrow> True | Some allowed \<Rightarrow> ''std'' \<in> set allowed)"

definition collect_results ::
  "env \<Rightarrow> string \<Rightarrow> xref \<Rightarrow> node list \<Rightarrow> node
     \<Rightarrow> (exn + (string \<times> node) list) \<times> log_call list" where
  "collect_results e refdoc' x kids contnode =
     (case anchor_ref_doc e refdoc' x kids of
        Inl err \<Rightarrow> (Inl err, [])
      | Inr results1 \<Rightarrow>
          (case (if std_allowed e
                 then std_objects e refdoc' (reftarget x) contnode (object_types e) results1
                 else Inr results1) of
             Inl err \<Rightarrow> (Inl err, [])
           | Inr results2 \<Rightarrow>
               other_domains e refdoc' (reftarget x) (PendingXref x kids) contnode
                 (domains e) results2))"

section \<open>Selecting the result\<close>

text \<open>The text of an attribute value inside an f-string.\<close>

fun format_attr :: "attr \<Rightarrow> string" where
  "format_attr (AStr s) = s"
| "format_attr (ABool b) = (if b then ''True'' else ''False'')"
| "format_attr (AList l) =
     ''['' @ str_join '', '' (map (\<lambda>v. [CHR 0x27] @ v @ [CHR 0x27]) l) @ '']''"

text \<open>
  \<^verbatim>\<open>stringify(name, node)\<close>: the role and the candidate's \<^verbatim>\<open>reftitle\<close>, or its text when
  it has none.
\<close>

definition display_text :: "node \<Rightarrow> string" where
  "display_text nd =
     (case nd of
        Element tag raw attrs kids \<Rightarrow>
          (case map_of attrs ''reftitle'' of Some v \<Rightarrow> format_attr v | None \<Rightarrow> astext nd)
      | _ \<Rightarrow> astext nd)"

definition stringify :: "string \<times> node \<Rightarrow> string" where
  "stringify cand = '':'' @ fst cand @ '':`'' @ display_text (snd cand) @ ''`''"

definition ambiguity_warning :: "string \<Rightarrow> (string \<times> node) list \<Rightarrow> log_call" where
  "ambiguity_warning target results =
     \<lparr>message = ''more than one target found for '' @ [CHR 0x27] @ ''myst'' @ [CHR 0x27] @
                 '' cross-reference '' @ target @ '': could be '' @
                 str_join '' or '' (map stringify results) @ '' [myst.ref]'',
      wtype = ''myst'', subtype = ''ref'', once = False\<rparr>"

text \<open>\<^verbatim>\<open>child["classes"] = child.get("classes", []) + extra\<close>.\<close>

fun append_classes :: "string list \<Rightarrow> node \<Rightarrow> node" where
  "append_classes extra (Element tag raw attrs kids) =
     Element tag raw
       (dict_set ''classes''
          (AList ((case map_of attrs ''classes'' of Some (AList l) \<Rightarrow> l | _ \<Rightarrow> []) @ extra))
          attrs) kids"
| "append_classes extra (PendingXref x kids) = PendingXref (x\<lparr>xclasses := xclasses x @ extra\<rparr>) kids"
| "append_classes extra (Text s) = Text s"

text \<open>
  Lines 189 to 199: the first child of the selected node, when it is an element, gets the
  classes \<open>domain\<close> and \<open>domain-role\<close> of the winning candidate.
\<close>

definition style_result :: "string \<times> node \<Rightarrow> node" where
  "style_result cand =
     (let res_role = fst cand;
          newnode = snd cand;
          res_domain = takeWhile (\<lambda>c. c \<noteq> CHR '':'') res_role;
          extra = [res_domain, map (\<lambda>c. if c = CHR '':'' then CHR ''-'' else c) res_role]
      in (case newnode of
            Element tag raw attrs (c # rest) \<Rightarrow>
              if is_element c then Element tag raw attrs (append_classes extra c # rest)
              else newnode
          | PendingXref x (c # rest) \<Rightarrow>
              if is_element c then PendingXref x (append_classes extra c # rest) else newnode
          | _ \<Rightarrow> newnode))"

text \<open>Lines 169 to 199: nothing, the only candidate, or the first one after a warning.\<close>

definition select_result ::
  "string \<Rightarrow> (string \<times> node) list \<Rightarrow> node option \<times> log_call list" where
  "select_result target results =
     (case results of
        [] \<Rightarrow> (None, [])
      | first # others \<Rightarrow>
          (Some (style_result first),
           if length results > 1 then [ambiguity_warning target results] else []))"

definition resolve_myst_ref ::
  "env \<Rightarrow> string \<Rightarrow> xref \<Rightarrow> node list \<Rightarrow> node \<Rightarrow> (exn + node option) \<times> log_call list" where
  "resolve_myst_ref e refdoc' x kids contnode =
     (case collect_results e refdoc' x kids contnode of
        (Inl err, calls) \<Rightarrow> (Inl err, calls)
      | (Inr results, calls) \<Rightarrow>
          (case select_result (reftarget x) results of
             (newnode, calls') \<Rightarrow> (Inr newnode, calls @ calls')))"

section \<open>The loop body of the pass\<close>

text \<open>
  \<^verbatim>\<open>app.emit_firstresult("missing-reference", env, node, contnode)\<close> of Sphinx: every
  listener is called in order, an exception of a listener ends the call, and the first
  result that is not \<^verbatim>\<open>None\<close> is returned.
\<close>

fun emit :: "(node \<Rightarrow> node \<Rightarrow> exn + node option) list \<Rightarrow> node \<Rightarrow> node \<Rightarrow> exn + node option list" where
  "emit [] nd contnode = Inr []"
| "emit (h # hs) nd contnode =
     (case h nd contnode of
        Inl err \<Rightarrow> Inl err
      | Inr r \<Rightarrow> (case emit hs nd contnode of Inl err \<Rightarrow> Inl err | Inr rs \<Rightarrow> Inr (r # rs)))"

fun firstresult :: "node option list \<Rightarrow> node option" where
  "firstresult [] = None"
| "firstresult (None # rs) = firstresult rs"
| "firstresult (Some r # rs) = Some r"

definition emit_firstresult ::
  "(node \<Rightarrow> node \<Rightarrow> exn + node option) list \<Rightarrow> node \<Rightarrow> node \<Rightarrow> exn + node option" where
  "emit_firstresult hs nd contnode =
     (case emit hs nd contnode of Inl err \<Rightarrow> Inl err | Inr rs \<Rightarrow> Inr (firstresult rs))"

text \<open>
  \<^verbatim>\<open>warn_missing_reference(refdoc, typ, target, node, None)\<close>, inherited from Sphinx's
  \<^verbatim>\<open>ReferencesResolver\<close>: it warns when the placeholder asks for it (\<^verbatim>\<open>refwarn\<close>) or the
  build is nit-picky and the target is not on the ignore list. (Listeners of Sphinx's
  \<^verbatim>\<open>warn-missing-reference\<close> event, which can take the warning over, are left out.)
\<close>

definition warn_missing_reference :: "env \<Rightarrow> string \<Rightarrow> string \<Rightarrow> string \<Rightarrow> xref \<Rightarrow> log_call list" where
  "warn_missing_reference e refdoc' typ target x =
     (let warn = (if nitpicky e then (typ, target) \<notin> set (nitpick_ignore e) else refwarn x)
      in if \<not> warn then []
         else [\<lparr>message =
                   (case refdomain x of
                      None \<Rightarrow> ''None:'' @ typ
                    | Some rd \<Rightarrow>
                        if rd = [] \<or> rd = ''std'' then [CHR 0x27] @ typ @ [CHR 0x27]
                        else rd @ '':'' @ typ)
                   @ '' reference target not found: '' @ target,
                 wtype = ''ref'', subtype = typ, once = False\<rparr>])"

text \<open>
  The body of the loop of \<^verbatim>\<open>run\<close> for one placeholder, up to the argument of
  \<^verbatim>\<open>replace_self\<close>. It returns that argument (\<^verbatim>\<open>newnode or contnode\<close>), or the exception that
  leaves the loop; the attributes of the placeholder as the body leaves them; and the
  logger calls. \<open>contnode\<close> is the deep copy of the first child.
\<close>

definition run_placeholder :: "env \<Rightarrow> xref \<Rightarrow> node list \<Rightarrow> (exn + node) \<times> xref \<times> log_call list" where
  "run_placeholder e x kids =
     (case kids of
        [] \<Rightarrow> (Inl IndexError, x, [])
      | c # _ \<Rightarrow>
          let contnode = c;
              target = reftarget x;
              refdoc' = (case refdoc x of Some d \<Rightarrow> d | None \<Rightarrow> env_docname e)
          in (case resolve_myst_ref e refdoc' x kids contnode of
                (Inl err, calls) \<Rightarrow> (if err = NoUri then Inr contnode else Inl err, x, calls)
              | (Inr (Some newnode), calls) \<Rightarrow> (Inr newnode, x, calls)
              | (Inr None, calls) \<Rightarrow>
                  let x_any = x\<lparr>reftype := ''any''\<rparr>;
                      x_myst = x_any\<lparr>reftype := ''myst''\<rparr>
                  in (case emit_firstresult (handlers e) (PendingXref x_any kids) contnode of
                        Inl err \<Rightarrow> (if err = NoUri then Inr contnode else Inl err, x_myst, calls)
                      | Inr (Some newnode) \<Rightarrow> (Inr newnode, x_myst, calls)
                      | Inr None \<Rightarrow>
                          let x_dom = x_myst\<lparr>refdomain := Some []\<rparr>
                          in (Inr contnode, x_dom,
                              calls @ warn_missing_reference e refdoc' (reftype x_dom) target x_dom))))"

section \<open>The pass over the document tree\<close>














text \<open>
  Sphinx's filter for warnings logged with \<^verbatim>\<open>once=True\<close>: such a call is shown unless a call
  with the same message has been shown before. \<open>shown calls\<close> are the warnings a build
  shows for the logger calls it makes.
\<close>

fun once_filter :: "string list \<Rightarrow> log_call list \<Rightarrow> log_call list" where
  "once_filter seen [] = []"
| "once_filter seen (c # cs) =
     (if once c then
        (if message c \<in> set seen then once_filter seen cs
         else c # once_filter (message c # seen) cs)
      else c # once_filter seen cs)"

definition shown :: "log_call list \<Rightarrow> log_call list" where
  "shown calls = once_filter [] calls"

section \<open>A small project\<close>

text \<open>
  The concrete inputs of the examples below: a project with the documents
  \<^verbatim>\<open>guide/start\<close>, \<^verbatim>\<open>guide/intro\<close> and \<^verbatim>\<open>setup\<close>, a heading anchor and a label in
  \<^verbatim>\<open>guide/intro\<close>, a command-line option and a glossary term called \<^verbatim>\<open>setup\<close>, and
  placeholders written in \<^verbatim>\<open>guide/start\<close>.
\<close>

definition ex_xref :: "string \<Rightarrow> bool \<Rightarrow> xref" where
  "ex_xref target explicit =
     \<lparr>reftype = ''myst'', reftarget = target, refdoc = Some ''guide/start'', refdomain = None,
      refexplicit = explicit, refwarn = True, xids = [], xclasses = [], xnames = [],
      xdupnames = []\<rparr>"

definition ex_content :: "node list \<Rightarrow> node" where
  "ex_content kids = Element ''inline'' [] [(''classes'', AList [''xref'', ''myst''])] kids"

definition ex_env :: env where
  "ex_env =
     \<lparr>myst_heading_anchors = Some 2, myst_ref_domains = None, source_suffix = [''.md''],
      nitpicky = False, nitpick_ignore = [], env_docname = ''guide/start'',
      all_docs = [''guide/start'', ''guide/intro'', ''setup''],
      titles = map_of [(''guide/intro'', Element ''title'' [] [] [Text ''Intro'']),
                       (''setup'', Element ''title'' [] [] [Text ''Setup''])],
      doc2path = (\<lambda>d. d @ ''.md''),
      labels = map_of [(''guide/intro.md#overview'', (''guide/intro'', ''overview'', ''Overview'')),
                       (''intro-label'', (''guide/intro'', ''intro-label'', ''Introduction'')),
                       (''setup'', (''guide/intro'', ''setup'', ''Setting up''))],
      anonlabels = map_of [(''intro-label'', (''guide/intro'', ''intro-label''))],
      object_types = [''term'', ''option''],
      objects = map_of [((''option'', ''setup''), (''cli'', ''cmdoption-setup'')),
                        ((''term'', ''setup''), (''glossary'', ''term-setup''))],
      role_for_objtype = (\<lambda>t. Some t),
      get_relative_uri = (\<lambda>a b. Inr (b @ ''.html'')),
      domains = [], handlers = []\<rparr>"

text \<open>A domain that knows one object, one that predates \<^verbatim>\<open>resolve_any_xref\<close>, and one
  whose objects have no location in the current build.\<close>

definition ex_domain :: "string \<Rightarrow> domain" where
  "ex_domain target =
     \<lparr>name = ''ext'', module = ''ext.domain'', roles = [''obj''],
      resolve_any_xref =
        (\<lambda>rd t n c. if t = target then Inr [(''ext:obj'', Element ''reference'' [] [] [c])]
                     else Inr []),
      resolve_xref = (\<lambda>rd r t n c. Inr None)\<rparr>"

definition ex_legacy_domain :: "string \<Rightarrow> domain" where
  "ex_legacy_domain target =
     \<lparr>name = ''old'', module = ''old.domain'', roles = [''func'', ''data''],
      resolve_any_xref = (\<lambda>rd t n c. Inl NotImplementedError),
      resolve_xref =
        (\<lambda>rd r t n c. if t = target \<and> r = ''data''
                       then Inr (Some (Element ''reference'' [] [] [c])) else Inr None)\<rparr>"

definition ex_nouri_domain :: domain where
  "ex_nouri_domain =
     \<lparr>name = ''inv'', module = ''inv.domain'', roles = [],
      resolve_any_xref = (\<lambda>rd t n c. Inl NoUri),
      resolve_xref = (\<lambda>rd r t n c. Inr None)\<rparr>"




section \<open>Properties\<close>

text \<open>The definitions that the evaluation of the examples unfolds.\<close>

lemmas ex_defs = ex_xref_def ex_content_def ex_env_def ex_domain_def ex_legacy_domain_def
  ex_nouri_domain_def

lemmas path_defs = rsplit1_def normpath_def startswith_def endswith_def path_join_def
  join_step_def docname_join_def splitext_def lower_def lower_char_def

lemmas node_defs = inline_def default_attributes_def make_refnode_def child0_def

lemmas resolve_defs = resolve_anchor_def anchor_key_def resolve_ref_nested_def
  resolve_doc_nested_def doc_candidate_def anchor_ref_doc_def collect_results_def std_key_def
  select_result_def resolve_myst_ref_def std_allowed_def

subsection \<open>The loops append to the candidates collected so far\<close>

lemma std_objects_acc:
  "std_objects e rd t c ots acc =
     (case std_objects e rd t c ots [] of Inl err \<Rightarrow> Inl err | Inr r \<Rightarrow> Inr (acc @ r))"
proof (induction ots arbitrary: acc)
  case Nil
  show ?case by simp
next
  case (Cons ot ots)
  show ?case
  proof (cases "objects e (std_key ot t)")
    case None
    then show ?thesis using Cons.IH [of acc] by simp
  next
    case (Some p)
    obtain dn li where p: "p = (dn, li)" by (cases p)
    show ?thesis
    proof (cases "make_refnode e rd dn li c")
      case (Inl err)
      then show ?thesis using Some p by simp
    next
      case (Inr n)
      let ?cand = "(''std:'' @ (case role_for_objtype e ot of Some r \<Rightarrow> r | None \<Rightarrow> ''None''), n)"
      have "std_objects e rd t c (ot # ots) acc = std_objects e rd t c ots (acc @ [?cand])"
        using Some p Inr by simp
      moreover have "std_objects e rd t c (ot # ots) [] = std_objects e rd t c ots [?cand]"
        using Some p Inr by simp
      ultimately show ?thesis
        using Cons.IH [of "acc @ [?cand]"] Cons.IH [of "[?cand]"]
        by (simp split: sum.splits)
    qed
  qed
qed

lemma roles_loop_acc:
  "roles_loop d rd t n c rs acc =
     (case roles_loop d rd t n c rs [] of Inl err \<Rightarrow> Inl err | Inr r \<Rightarrow> Inr (acc @ r))"
proof (induction rs arbitrary: acc)
  case Nil
  show ?case by simp
next
  case (Cons role rs)
  show ?case
  proof (cases "resolve_xref d rd role t n c")
    case (Inl err)
    then show ?thesis by simp
  next
    case (Inr res)
    show ?thesis
    proof (cases "case res of None \<Rightarrow> False
                  | Some r \<Rightarrow> (case children r of [] \<Rightarrow> False | k # _ \<Rightarrow> is_element k)")
      case False
      then have "roles_loop d rd t n c (role # rs) a = roles_loop d rd t n c rs a" for a
        using Inr by (auto split: option.splits list.splits)
      then show ?thesis using Cons.IH [of acc] by simp
    next
      case True
      then obtain r where r: "res = Some r" by (cases res) auto
      let ?cand = "(name d @ '':'' @ role, r)"
      have "roles_loop d rd t n c (role # rs) a = roles_loop d rd t n c rs (a @ [?cand])" for a
        using Inr True r by (auto split: list.splits)
      then show ?thesis
        using Cons.IH [of "acc @ [?cand]"] Cons.IH [of "[?cand]"]
        by (simp split: sum.splits)
    qed
  qed
qed

lemma other_domains_acc:
  "other_domains e rd t n c ds acc =
     (case other_domains e rd t n c ds [] of
        (Inl err, calls) \<Rightarrow> (Inl err, calls)
      | (Inr r, calls) \<Rightarrow> (Inr (acc @ r), calls))"
proof (induction ds arbitrary: acc)
  case Nil
  show ?case by simp
next
  case (Cons d ds)
  show ?case
  proof (cases "name d = ''std'' \<or>
                (case myst_ref_domains e of None \<Rightarrow> False | Some allowed \<Rightarrow> name d \<notin> set allowed)")
    case True
    then have "other_domains e rd t n c (d # ds) a = other_domains e rd t n c ds a" for a
      by auto
    then show ?thesis using Cons.IH [of acc] by simp
  next
    case False
    show ?thesis
    proof (cases "resolve_any_xref d rd t n c")
      case (Inr found)
      then have "other_domains e rd t n c (d # ds) a = other_domains e rd t n c ds (a @ found)" for a
        using False by auto
      then show ?thesis
        using Cons.IH [of "acc @ found"] Cons.IH [of found]
        by (auto split: sum.splits prod.splits)
    next
      case (Inl err)
      show ?thesis
      proof (cases "err = NotImplementedError")
        case False
        then show ?thesis using Inl \<open>\<not> (name d = ''std'' \<or> _)\<close>
          by (cases err) auto
      next
        case True
        show ?thesis
        proof (cases "roles_loop d rd t n c (roles d) []")
          case (Inl err2)
          then have "roles_loop d rd t n c (roles d) acc = Inl err2"
            using roles_loop_acc [of d rd t n c "roles d" acc] by simp
          then show ?thesis using Inl \<open>resolve_any_xref d rd t n c = Inl err\<close> True False
            by (auto simp: Let_def)
        next
          case (Inr found)
          then have "roles_loop d rd t n c (roles d) acc = Inr (acc @ found)"
            using roles_loop_acc [of d rd t n c "roles d" acc] by simp
          then show ?thesis
            using Inr \<open>resolve_any_xref d rd t n c = Inl err\<close> True False
              Cons.IH [of "acc @ found"] Cons.IH [of found]
            by (auto simp: Let_def split: sum.splits prod.splits)
        qed
      qed
    qed
  qed
qed

text \<open>The only logger calls of the loop over the domains are the warnings about domains.\<close>

lemma other_domains_calls:
  "call \<in> set (snd (other_domains e rd t n c ds acc)) \<Longrightarrow> \<exists>d \<in> set ds. call = domain_warning d"
proof (induction ds arbitrary: acc)
  case Nil
  then show ?case by simp
next
  case (Cons d ds)
  show ?case
  proof (cases "name d = ''std'' \<or>
                (case myst_ref_domains e of None \<Rightarrow> False | Some allowed \<Rightarrow> name d \<notin> set allowed)")
    case True
    then have "other_domains e rd t n c (d # ds) acc = other_domains e rd t n c ds acc"
      by auto
    then show ?thesis using Cons by auto
  next
    case False
    show ?thesis
    proof (cases "resolve_any_xref d rd t n c")
      case (Inr found)
      then have "other_domains e rd t n c (d # ds) acc = other_domains e rd t n c ds (acc @ found)"
        using False by auto
      then show ?thesis using Cons by auto
    next
      case (Inl err)
      show ?thesis
      proof (cases "err = NotImplementedError")
        case False
        then have "snd (other_domains e rd t n c (d # ds) acc) = []"
          using Inl \<open>\<not> (name d = ''std'' \<or> _)\<close> by (cases err) auto
        then show ?thesis using Cons.prems by simp
      next
        case True
        show ?thesis
        proof (cases "roles_loop d rd t n c (roles d) acc")
          case (Inl err2)
          then have "set (snd (other_domains e rd t n c (d # ds) acc)) \<subseteq> {domain_warning d}"
            using \<open>resolve_any_xref d rd t n c = Inl err\<close> True False by (auto simp: Let_def)
          then show ?thesis using Cons.prems by auto
        next
          case (Inr found)
          then have "set (snd (other_domains e rd t n c (d # ds) acc))
                       \<subseteq> {domain_warning d} \<union> set (snd (other_domains e rd t n c ds found))"
            using \<open>resolve_any_xref d rd t n c = Inl err\<close> True False
            by (auto simp: Let_def split: prod.splits)
          then show ?thesis using Cons.prems Cons.IH [of found] by auto
        qed
      qed
    qed
  qed
qed

lemma collect_results_calls:
  "call \<in> set (snd (collect_results e rd x kids c)) \<Longrightarrow> \<exists>d \<in> set (domains e). call = domain_warning d"
  unfolding collect_results_def
  by (auto split: sum.splits if_splits dest: other_domains_calls)

text \<open>The candidates in the order of the strategies.\<close>

lemma collect_results_split:
  assumes "collect_results e rd x kids c = (Inr results, calls)"
  shows "\<exists>t s d. anchor_ref_doc e rd x kids = Inr t
           \<and> (if std_allowed e then std_objects e rd (reftarget x) c (object_types e) [] else Inr []) = Inr s
           \<and> other_domains e rd (reftarget x) (PendingXref x kids) c (domains e) [] = (Inr d, calls)
           \<and> results = t @ s @ d"
proof -
  obtain t where t: "anchor_ref_doc e rd x kids = Inr t"
    using assms unfolding collect_results_def by (cases "anchor_ref_doc e rd x kids") auto
  let ?std = "if std_allowed e then std_objects e rd (reftarget x) c (object_types e) [] else Inr []"
  let ?std_t = "if std_allowed e then std_objects e rd (reftarget x) c (object_types e) t else Inr t"
  have std_t: "?std_t = (case ?std of Inl err \<Rightarrow> Inl err | Inr r \<Rightarrow> Inr (t @ r))"
    using std_objects_acc [of e rd "reftarget x" c "object_types e" t] by simp
  obtain s where s: "?std = Inr s"
    using assms t std_t unfolding collect_results_def
    by (cases ?std) (auto split: if_splits)
  then have ts: "?std_t = Inr (t @ s)" using std_t by simp
  then have "other_domains e rd (reftarget x) (PendingXref x kids) c (domains e) (t @ s) = (Inr results, calls)"
    using assms t unfolding collect_results_def by (auto split: if_splits)
  then obtain d where
    "other_domains e rd (reftarget x) (PendingXref x kids) c (domains e) [] = (Inr d, calls)"
    "results = (t @ s) @ d"
    using other_domains_acc [of e rd "reftarget x" "PendingXref x kids" c "domains e" "t @ s"]
    by (auto split: prod.splits sum.splits)
  then show ?thesis using t s by auto
qed

subsection \<open>Anchor resolution comes first\<close>

lemma anchor_ref_doc_anchor:
  "resolve_anchor e x kids rd = Inr (Some a) \<Longrightarrow> anchor_ref_doc e rd x kids = Inr [(''std:doc'', a)]"
  by (simp add: anchor_ref_doc_def)

text \<open>
  C1, as amended. When anchor resolution succeeds, the anchor candidate is the only
  candidate of the first tier: named-label and document resolution contribute nothing.
  The search of the standard domain's objects and of the other domains still runs; the
  candidates are the anchor candidate followed by their hits, the anchor candidate is the
  one selected, and the ambiguity warning is logged exactly when there is such a hit.
\<close>

theorem anchor_resolved_skips_label_and_doc:
  assumes "resolve_anchor e x kids rd = Inr (Some res_anchor)"
    and "collect_results e rd x kids contnode = (Inr results, calls)"
  shows "anchor_ref_doc e rd x kids = Inr [(''std:doc'', res_anchor)]
       \<and> (\<exists>s d. (if std_allowed e
                  then std_objects e rd (reftarget x) contnode (object_types e) []
                  else Inr []) = Inr s
              \<and> other_domains e rd (reftarget x) (PendingXref x kids) contnode (domains e) []
                  = (Inr d, calls)
              \<and> results = (''std:doc'', res_anchor) # s @ d
              \<and> resolve_myst_ref e rd x kids contnode =
                  (Inr (Some (style_result (''std:doc'', res_anchor))),
                   calls @ (if s @ d = [] then [] else [ambiguity_warning (reftarget x) results])))"
proof -
  have t: "anchor_ref_doc e rd x kids = Inr [(''std:doc'', res_anchor)]"
    using assms(1) by (rule anchor_ref_doc_anchor)
  obtain t' s d where split:
    "anchor_ref_doc e rd x kids = Inr t'"
    "(if std_allowed e then std_objects e rd (reftarget x) contnode (object_types e) []
      else Inr []) = Inr s"
    "other_domains e rd (reftarget x) (PendingXref x kids) contnode (domains e) [] = (Inr d, calls)"
    "results = t' @ s @ d"
    using collect_results_split [OF assms(2)] by blast
  have res: "results = (''std:doc'', res_anchor) # s @ d"
    using split(1,4) t by simp
  have "resolve_myst_ref e rd x kids contnode =
          (Inr (Some (style_result (''std:doc'', res_anchor))),
           calls @ (if s @ d = [] then [] else [ambiguity_warning (reftarget x) results]))"
    using assms(2) res by (simp add: resolve_myst_ref_def select_result_def)
  then show ?thesis using t split(2,3) res by blast
qed

text \<open>
  The heading anchor \<^verbatim>\<open>intro.md#overview\<close>, referred to from \<^verbatim>\<open>guide/start\<close>, resolves to the
  label \<^verbatim>\<open>guide/intro.md#overview\<close>, and is the only candidate.
\<close>

theorem anchor_resolved_skips_label_and_doc_witness:
  "resolve_anchor ex_env (ex_xref ''intro.md#overview'' False) [ex_content []] ''guide/start''
     = Inr (Some (Element ''reference'' []
          [(''ids'', AList []), (''classes'', AList []), (''names'', AList []),
           (''dupnames'', AList []), (''backrefs'', AList []), (''internal'', ABool True),
           (''refuri'', AStr ''guide/intro.html#overview'')]
          [inline ''Overview'' ''Overview'' []]))
   \<and> map fst (projr (anchor_ref_doc ex_env ''guide/start'' (ex_xref ''intro.md#overview'' False)
                        [ex_content []])) = [''std:doc'']"
proof -
  let ?x = "ex_xref ''intro.md#overview'' False"
  let ?a = "Element ''reference'' []
          [(''ids'', AList []), (''classes'', AList []), (''names'', AList []),
           (''dupnames'', AList []), (''backrefs'', AList []), (''internal'', ABool True),
           (''refuri'', AStr ''guide/intro.html#overview'')]
          [inline ''Overview'' ''Overview'' []]"
  have a: "resolve_anchor ex_env ?x [ex_content []] ''guide/start'' = Inr (Some ?a)"
    by (simp add: ex_defs path_defs node_defs resolve_defs)
  have c: "collect_results ex_env ''guide/start'' ?x [ex_content []] (ex_content [])
             = (Inr [(''std:doc'', ?a)], [])"
    by (simp add: ex_defs path_defs node_defs resolve_defs)
  show ?thesis
    using anchor_resolved_skips_label_and_doc [OF a c] a by simp
qed

text \<open>
  C1 as stated fails: with a domain that knows an object under the same target, the
  target resolves as an anchor, a second candidate is collected all the same, and the
  ambiguity warning is logged.
\<close>

theorem anchor_resolved_yet_ambiguous:
  "map_sum id (map_option astext)
     (resolve_anchor (ex_env\<lparr>domains := [ex_domain ''intro.md#overview'']\<rparr>)
        (ex_xref ''intro.md#overview'' False) [ex_content []] ''guide/start'')
     = Inr (Some ''Overview'')
   \<and> map_sum id (map fst)
       (fst (collect_results (ex_env\<lparr>domains := [ex_domain ''intro.md#overview'']\<rparr>) ''guide/start''
          (ex_xref ''intro.md#overview'' False) [ex_content []] (ex_content [])))
     = Inr [''std:doc'', ''ext:obj'']
   \<and> map subtype
       (snd (resolve_myst_ref (ex_env\<lparr>domains := [ex_domain ''intro.md#overview'']\<rparr>) ''guide/start''
          (ex_xref ''intro.md#overview'' False) [ex_content []] (ex_content [])))
     = [''ref'']"
  by (simp add: ex_defs path_defs node_defs resolve_defs ambiguity_warning_def)

subsection \<open>Several candidates\<close>







subsection \<open>Explicit content\<close>









subsection \<open>Lookup keys\<close>






subsection \<open>Document names\<close>

text \<open>
  C8. The target is joined against the referring document. The document looked for is
  the joined name when that is a known document; otherwise, when the extension of the
  joined name is a source suffix, the joined name without it, and nothing is stripped a
  second time. Document resolution returns no candidate exactly when that name is not a
  known document; a node it returns refers to that document.
\<close>

theorem doc_resolution_strips_suffix_once:
  "(let joined = docname_join (case refdoc x of Some d \<Rightarrow> d | None \<Rightarrow> fromdocname) (reftarget x);
        (stem, ext) = splitext joined;
        looked_for = (if joined \<in> set (all_docs e) then joined
                      else if ext \<in> set (source_suffix e) then stem
                      else joined)
    in (resolve_doc_nested e x kids fromdocname = Inr None) = (looked_for \<notin> set (all_docs e))
     \<and> (\<forall>n. resolve_doc_nested e x kids fromdocname = Inr (Some n) \<longrightarrow>
            (\<exists>innernode. make_refnode e fromdocname looked_for [] innernode = Inr n)))"
proof -
  let ?joined = "docname_join (case refdoc x of Some d \<Rightarrow> d | None \<Rightarrow> fromdocname) (reftarget x)"
  let ?looked = "if ?joined \<in> set (all_docs e) then ?joined
                 else if snd (splitext ?joined) \<in> set (source_suffix e) then fst (splitext ?joined)
                 else ?joined"
  have cand: "doc_candidate e ?joined = ?looked"
    by (simp add: doc_candidate_def)
  have none: "(resolve_doc_nested e x kids fromdocname = Inr None) = (?looked \<notin> set (all_docs e))"
    unfolding resolve_doc_nested_def Let_def cand
    by (auto split: list.splits option.splits sum.splits)
  have some: "\<exists>innernode. make_refnode e fromdocname ?looked [] innernode = Inr n"
    if "resolve_doc_nested e x kids fromdocname = Inr (Some n)" for n
    using that unfolding resolve_doc_nested_def Let_def cand
    by (auto split: if_splits list.splits option.splits sum.splits)
  show ?thesis
    using none some by (simp add: Let_def case_prod_beta)
qed

text \<open>
  From \<^verbatim>\<open>guide/start\<close>, the target \<^verbatim>\<open>intro.md\<close> is joined to \<^verbatim>\<open>guide/intro.md\<close>, which is no
  document; without the suffix it is. The target \<^verbatim>\<open>intro.md.md\<close> loses one suffix only and
  is not found.
\<close>

theorem doc_resolution_strips_suffix_once_witness:
  "docname_join ''guide/start'' ''intro.md'' = ''guide/intro.md''
 \<and> resolve_doc_nested ex_env (ex_xref ''intro.md'' False) [ex_content []] ''guide/start''
     \<noteq> Inr None
 \<and> resolve_doc_nested ex_env (ex_xref ''intro.md.md'' False) [ex_content []] ''guide/start''
     = Inr None"
proof -
  let ?x = "ex_xref ''intro.md'' False"
  have j: "docname_join (case refdoc ?x of Some d \<Rightarrow> d | None \<Rightarrow> ''guide/start'') (reftarget ?x)
             = ''guide/intro.md''"
    by code_simp
  have s: "splitext ''guide/intro.md'' = (''guide/intro'', ''.md'')"
    by code_simp
  have d: "''guide/intro.md'' \<notin> set (all_docs ex_env) \<and> ''.md'' \<in> set (source_suffix ex_env)
           \<and> ''guide/intro'' \<in> set (all_docs ex_env)"
    by code_simp
  have "(resolve_doc_nested ex_env ?x [ex_content []] ''guide/start'' = Inr None) = False"
    using doc_resolution_strips_suffix_once
            [where x = "ex_xref ''intro.md'' False" and fromdocname = "''guide/start''"
               and e = ex_env and kids = "[ex_content []]"]
    unfolding j Let_def s using d by simp
  moreover have "docname_join ''guide/start'' ''intro.md'' = ''guide/intro.md''"
    by code_simp
  moreover have "resolve_doc_nested ex_env (ex_xref ''intro.md.md'' False) [ex_content []]
                   ''guide/start'' = Inr None"
    by code_simp
  ultimately show ?thesis by simp
qed

subsection \<open>The anchor key\<close>









subsection \<open>The missing-reference hook\<close>



lemma run_placeholder_unresolved:
  assumes "resolve_myst_ref e (case refdoc x of Some d \<Rightarrow> d | None \<Rightarrow> env_docname e) x (c # rest) c
             = (Inr None, calls)"
  shows "run_placeholder e x (c # rest) =
           (case emit_firstresult (handlers e) (PendingXref (x\<lparr>reftype := ''any''\<rparr>) (c # rest)) c of
              Inl err \<Rightarrow> (if err = NoUri then Inr c else Inl err, x\<lparr>reftype := ''myst''\<rparr>, calls)
            | Inr None \<Rightarrow>
                (Inr c, x\<lparr>reftype := ''myst'', refdomain := Some []\<rparr>,
                 calls @ warn_missing_reference e
                           (case refdoc x of Some d \<Rightarrow> d | None \<Rightarrow> env_docname e) ''myst''
                           (reftarget x) (x\<lparr>reftype := ''myst'', refdomain := Some []\<rparr>))
            | Inr (Some newnode) \<Rightarrow> (Inr newnode, x\<lparr>reftype := ''myst''\<rparr>, calls))"
proof -
  let ?em = "emit_firstresult (handlers e) (PendingXref (x\<lparr>reftype := ''any''\<rparr>) (c # rest)) c"
  show ?thesis
  proof (cases ?em)
    case (Inl err)
    then show ?thesis using assms by (simp add: run_placeholder_def Let_def)
  next
    case (Inr r)
    then show ?thesis using assms by (cases r) (simp_all add: run_placeholder_def Let_def)
  qed
qed



subsection \<open>No location for the destination\<close>

lemma resolve_myst_ref_unselected_calls:
  assumes "fst (resolve_myst_ref e rd x kids c) = Inl err \<or> fst (resolve_myst_ref e rd x kids c) = Inr None"
  shows "snd (resolve_myst_ref e rd x kids c) = snd (collect_results e rd x kids c)"
proof (cases "collect_results e rd x kids c")
  case (Pair r calls)
  show ?thesis
  proof (cases r)
    case (Inl err')
    then show ?thesis using Pair by (simp add: resolve_myst_ref_def)
  next
    case (Inr results)
    then have "results = []"
      using assms Pair by (cases results) (auto simp: resolve_myst_ref_def select_result_def)
    then show ?thesis using Pair Inr by (simp add: resolve_myst_ref_def select_result_def)
  qed
qed

lemma run_placeholder_resolve_raises:
  assumes "resolve_myst_ref e (case refdoc x of Some d \<Rightarrow> d | None \<Rightarrow> env_docname e) x (c # rest) c
             = (Inl err, calls)"
  shows "run_placeholder e x (c # rest) = (if err = NoUri then Inr c else Inl err, x, calls)"
  using assms by (simp add: run_placeholder_def Let_def)

text \<open>
  C6, as amended. When \<open>resolve_myst_ref\<close> raises \<^verbatim>\<open>NoUri\<close>, or returns nothing and the
  listeners raise \<^verbatim>\<open>NoUri\<close>, the body of the loop raises nothing and hands the content node
  to \<^verbatim>\<open>replace_self\<close>. It logs no ambiguity warning and no warning about a missing
  reference: every logger call it made is the once-only warning about a domain without
  \<^verbatim>\<open>resolve_any_xref\<close>, made before the exception was raised.
\<close>

theorem no_uri_degrades_to_content:
  assumes "kids = c # rest"
    and "fst (resolve_myst_ref e (case refdoc x of Some d \<Rightarrow> d | None \<Rightarrow> env_docname e) x kids c)
           = Inl NoUri
       \<or> (fst (resolve_myst_ref e (case refdoc x of Some d \<Rightarrow> d | None \<Rightarrow> env_docname e) x kids c)
            = Inr None
          \<and> emit_firstresult (handlers e) (PendingXref (x\<lparr>reftype := ''any''\<rparr>) kids) c = Inl NoUri)"
  shows "fst (run_placeholder e x kids) = Inr c
       \<and> (\<forall>call \<in> set (snd (snd (run_placeholder e x kids))).
            (\<exists>d \<in> set (domains e). call = domain_warning d)
            \<and> subtype call = ''domains'' \<and> once call)"
proof -
  let ?rd = "case refdoc x of Some d \<Rightarrow> d | None \<Rightarrow> env_docname e"
  obtain r calls where rc: "resolve_myst_ref e ?rd x (c # rest) c = (r, calls)"
    by (cases "resolve_myst_ref e ?rd x (c # rest) c")
  have "r = Inl NoUri \<or> r = Inr None" using assms rc by auto
  then have calls: "calls = snd (collect_results e ?rd x (c # rest) c)"
    using resolve_myst_ref_unselected_calls [of e ?rd x "c # rest" c NoUri] rc by auto
  have dom: "\<forall>call \<in> set calls. (\<exists>d \<in> set (domains e). call = domain_warning d)
                    \<and> subtype call = ''domains'' \<and> once call"
  proof
    fix call assume "call \<in> set calls"
    then have "call \<in> set (snd (collect_results e ?rd x (c # rest) c))"
      using \<open>calls = snd (collect_results e ?rd x (c # rest) c)\<close> by simp
    then obtain d where d: "d \<in> set (domains e)" "call = domain_warning d"
      using collect_results_calls by blast
    have "subtype (domain_warning d) = ''domains''" "once (domain_warning d)"
      by (simp_all add: domain_warning_def)
    then show "(\<exists>d \<in> set (domains e). call = domain_warning d)
                 \<and> subtype call = ''domains'' \<and> once call"
      using d by blast
  qed
  consider (raise) "r = Inl NoUri"
    | (hook) "r = Inr None"
        "emit_firstresult (handlers e) (PendingXref (x\<lparr>reftype := ''any''\<rparr>) (c # rest)) c = Inl NoUri"
    using assms rc by auto
  then have "run_placeholder e x (c # rest) = (Inr c, x, calls)
           \<or> run_placeholder e x (c # rest) = (Inr c, x\<lparr>reftype := ''myst''\<rparr>, calls)"
  proof cases
    case raise
    then show ?thesis using run_placeholder_resolve_raises [of e x c rest NoUri calls] rc by simp
  next
    case hook
    then show ?thesis using run_placeholder_unresolved [of e x c rest calls] rc by simp
  qed
  then show ?thesis using dom assms(1) by auto
qed

text \<open>
  Listeners that raise \<^verbatim>\<open>NoUri\<close> for a target nothing else knows: the content node replaces
  the placeholder and nothing is logged.
\<close>

theorem no_uri_degrades_to_content_witness:
  "fst (run_placeholder (ex_env\<lparr>handlers := [\<lambda>nd c. Inl NoUri]\<rparr>) (ex_xref ''thing'' False)
          [ex_content [Text ''thing'']]) = Inr (ex_content [Text ''thing''])
 \<and> snd (snd (run_placeholder (ex_env\<lparr>handlers := [\<lambda>nd c. Inl NoUri]\<rparr>) (ex_xref ''thing'' False)
                [ex_content [Text ''thing'']])) = []"
proof -
  let ?e = "ex_env\<lparr>handlers := [\<lambda>nd c. Inl NoUri]\<rparr>"
  let ?x = "ex_xref ''thing'' False"
  let ?c = "ex_content [Text ''thing'']"
  have k: "[?c] = ?c # []" by simp
  have r: "fst (resolve_myst_ref ?e (case refdoc ?x of Some d \<Rightarrow> d | None \<Rightarrow> env_docname ?e) ?x [?c] ?c)
             = Inr None
         \<and> emit_firstresult (handlers ?e) (PendingXref (?x\<lparr>reftype := ''any''\<rparr>) [?c]) ?c = Inl NoUri"
    by code_simp
  have "fst (run_placeholder ?e ?x [?c]) = Inr ?c"
    using no_uri_degrades_to_content [OF k disjI2, OF r] by blast
  moreover have "snd (snd (run_placeholder ?e ?x [?c])) = []"
    by code_simp
  ultimately show ?thesis by simp
qed

text \<open>
  C6 as stated fails: a domain without \<^verbatim>\<open>resolve_any_xref\<close> is asked before a domain that
  raises \<^verbatim>\<open>NoUri\<close>. The placeholder is replaced by its content, and the warning about the
  first domain has been logged and is shown.
\<close>

theorem no_uri_after_a_domain_warning:
  "fst (resolve_myst_ref (ex_env\<lparr>domains := [ex_legacy_domain ''other'', ex_nouri_domain]\<rparr>)
          ''guide/start'' (ex_xref ''thing'' False) [ex_content [Text ''thing'']]
          (ex_content [Text ''thing''])) = Inl NoUri
 \<and> fst (run_placeholder (ex_env\<lparr>domains := [ex_legacy_domain ''other'', ex_nouri_domain]\<rparr>)
          (ex_xref ''thing'' False) [ex_content [Text ''thing'']])
     = Inr (ex_content [Text ''thing''])
 \<and> map subtype
      (shown (snd (snd (run_placeholder
                          (ex_env\<lparr>domains := [ex_legacy_domain ''other'', ex_nouri_domain]\<rparr>)
                          (ex_xref ''thing'' False) [ex_content [Text ''thing'']]))))
     = [''domains'']"
  by code_simp

subsection \<open>Domains without \<open>resolve_any_xref\<close>\<close>






subsection \<open>The pass over a tree\<close>
















end
